theory Spec2Isabelle
  imports Main
begin

section \<open>Folder handles of the Cloud Resource Manager client\<close>

text \<open>
  A shallow embedding of \<^verbatim>\<open>google/cloud/resource_manager/folder.py\<close>.
  The class \<^verbatim>\<open>Folder\<close> becomes a record, every method a function that takes the
  handle and returns the handle as the method leaves it; an exception raised by a method
  is the \<open>Inl\<close> branch of its result.
\<close>

subsection \<open>Values, dictionaries, errors\<close>

text \<open>
  A field of a handle and a value of a JSON object is a Python \<^verbatim>\<open>str\<close> or
  \<^verbatim>\<open>None\<close>. A \<^verbatim>\<open>dict\<close> is an association list read with \<open>map_of\<close>.
\<close>

type_synonym pyval = "string option"

type_synonym dict = "(string \<times> pyval) list"

text \<open>\<^verbatim>\<open>key in d\<close>\<close>

definition contains :: "dict \<Rightarrow> string \<Rightarrow> bool" where
  "contains d key = (map_of d key \<noteq> None)"

text \<open>\<^verbatim>\<open>d.get(key)\<close>: the value, \<^verbatim>\<open>None\<close> for a missing key.\<close>

definition dict_get :: "dict \<Rightarrow> string \<Rightarrow> pyval" where
  "dict_get d key = (case map_of d key of None \<Rightarrow> None | Some v \<Rightarrow> v)"

text \<open>
  \<open>NotFound\<close> is \<^verbatim>\<open>google.cloud.exceptions.NotFound\<close>, \<open>RequestFailure\<close> any other
  exception the connection raises, \<open>KeyError\<close> Python's error of \<^verbatim>\<open>d[key]\<close> on a
  missing key.
\<close>

datatype error = NotFound | RequestFailure string | KeyError string

text \<open>\<^verbatim>\<open>d[key]\<close>\<close>

definition dict_item :: "dict \<Rightarrow> string \<Rightarrow> error + pyval" where
  "dict_item d key = (case map_of d key of None \<Rightarrow> Inl (KeyError key) | Some v \<Rightarrow> Inr v)"

subsection \<open>The connection\<close>

text \<open>
  A client is known by its identity. \<^verbatim>\<open>client._connection_v2.api_request\<close> is outside
  the file: it is a parameter \<open>api\<close> of every method, a function of the state of the
  world beyond the handle, the client and the request, that returns the response or the
  exception and the next state of the world. The requests made are logged in order, each
  with the client it was made on.
\<close>

type_synonym client = nat

record request =
  req_method :: string
  req_path :: string
  req_data :: "dict option"
  req_query_params :: "dict option"

type_synonym 'w backend = "'w \<Rightarrow> client \<Rightarrow> request \<Rightarrow> (error + dict) \<times> 'w"

type_synonym 'w net = "'w \<times> (client \<times> request) list"

definition api_request ::
  "'w backend \<Rightarrow> client \<Rightarrow> request \<Rightarrow> 'w net \<Rightarrow> (error + dict) \<times> 'w net" where
  "api_request api c r net =
     (case net of (w, calls) \<Rightarrow>
        (case api w c r of (res, w') \<Rightarrow> (res, (w', calls @ [(c, r)]))))"

text \<open>
  A connection that replays a list of responses and raises \<open>NotFound\<close> once the list is
  used up, whatever the client and the request: the world is the list still to replay.
\<close>

definition scripted :: "(error + dict) list backend" where
  "scripted w c r = (case w of [] \<Rightarrow> (Inl NotFound, []) | x # xs \<Rightarrow> (x, xs))"

subsection \<open>The handle\<close>

record folder =
  folder_client :: client
  name :: pyval
  display_name :: pyval
  status :: pyval
  parent :: pyval

text \<open>\<^verbatim>\<open>Folder.__init__(self, client, name=None, display_name=None, parent=None)\<close>\<close>

definition Folder :: "client \<Rightarrow> pyval \<Rightarrow> pyval \<Rightarrow> pyval \<Rightarrow> folder" where
  "Folder client' name' display_name' parent' =
     \<lparr>folder_client = client', name = name', display_name = display_name',
      status = None, parent = parent'\<rparr>"

text \<open>
  Under its guard \<^verbatim>\<open>"parent" in resource\<close>, the read \<^verbatim>\<open>resource["parent"]\<close> cannot
  raise and is the value \<open>dict_get\<close> returns; likewise for \<^verbatim>\<open>lifecycleState\<close>.
\<close>

definition set_properties_from_api_repr :: "folder \<Rightarrow> dict \<Rightarrow> folder" where
  "set_properties_from_api_repr self resource =
     (let self = self\<lparr>name := dict_get resource ''name''\<rparr>;
          self = (if contains resource ''parent''
                  then self\<lparr>parent := dict_get resource ''parent''\<rparr> else self);
          self = (if contains resource ''lifecycleState''
                  then self\<lparr>status := dict_get resource ''lifecycleState''\<rparr> else self)
      in self)"

definition from_api_repr :: "dict \<Rightarrow> client \<Rightarrow> error + folder" where
  "from_api_repr resource client' =
     (case dict_item resource ''name'' of
        Inl e \<Rightarrow> Inl e
      | Inr n \<Rightarrow> Inr (set_properties_from_api_repr (Folder client' n None None) resource))"

text \<open>\<^verbatim>\<open>"%s" % None\<close> is \<^verbatim>\<open>"None"\<close>.\<close>

definition str :: "pyval \<Rightarrow> string" where
  "str v = (case v of None \<Rightarrow> ''None'' | Some s \<Rightarrow> s)"

definition path :: "folder \<Rightarrow> string" where
  "path self = ''/'' @ str (name self)"

definition require_client :: "folder \<Rightarrow> client option \<Rightarrow> client" where
  "require_client self client' =
     (case client' of None \<Rightarrow> folder_client self | Some c \<Rightarrow> c)"

text \<open>
  Every method returns what the call returns or raises, the handle after the call and
  the world after the call.
\<close>

definition create ::
  "'w backend \<Rightarrow> folder \<Rightarrow> client option \<Rightarrow> 'w net \<Rightarrow> (error + dict) \<times> folder \<times> 'w net" where
  "create api self client' net =
     (let c = require_client self client';
          data = [(''name'', name self), (''displayName'', display_name self)];
          query_params = [(''parent'', parent self)]
      in case api_request api c
             \<lparr>req_method = ''POST'', req_path = ''/folders'', req_data = Some data,
              req_query_params = Some query_params\<rparr> net of
           (Inl e, net') \<Rightarrow> (Inl e, self, net')
         | (Inr resp, net') \<Rightarrow> (Inr resp, set_properties_from_api_repr self resp, net'))"

definition reload ::
  "'w backend \<Rightarrow> folder \<Rightarrow> client option \<Rightarrow> 'w net \<Rightarrow> (error + unit) \<times> folder \<times> 'w net" where
  "reload api self client' net =
     (let c = require_client self client'
      in case api_request api c
             \<lparr>req_method = ''GET'', req_path = path self, req_data = None,
              req_query_params = None\<rparr> net of
           (Inl e, net') \<Rightarrow> (Inl e, self, net')
         | (Inr resp, net') \<Rightarrow> (Inr (), set_properties_from_api_repr self resp, net'))"

definition exists ::
  "'w backend \<Rightarrow> folder \<Rightarrow> client option \<Rightarrow> 'w net \<Rightarrow> (error + bool) \<times> folder \<times> 'w net" where
  "exists api self client' net =
     (let c = require_client self client'
      in case api_request api c
             \<lparr>req_method = ''GET'', req_path = path self, req_data = None,
              req_query_params = None\<rparr> net of
           (Inl NotFound, net') \<Rightarrow> (Inr False, self, net')
         | (Inl e, net') \<Rightarrow> (Inl e, self, net')
         | (Inr resp, net') \<Rightarrow> (Inr True, self, net'))"

definition update ::
  "'w backend \<Rightarrow> folder \<Rightarrow> client option \<Rightarrow> 'w net \<Rightarrow> (error + unit) \<times> folder \<times> 'w net" where
  "update api self client' net =
     (let c = require_client self client';
          data = [(''display_name'', display_name self), (''parent'', parent self)]
      in case api_request api c
             \<lparr>req_method = ''PUT'', req_path = path self, req_data = Some data,
              req_query_params = None\<rparr> net of
           (Inl e, net') \<Rightarrow> (Inl e, self, net')
         | (Inr resp, net') \<Rightarrow> (Inr (), set_properties_from_api_repr self resp, net'))"

definition delete ::
  "'w backend \<Rightarrow> folder \<Rightarrow> client option \<Rightarrow> bool \<Rightarrow> 'w net
     \<Rightarrow> (error + unit) \<times> folder \<times> 'w net" where
  "delete api self client' reload_data net =
     (let c = require_client self client'
      in case api_request api c
             \<lparr>req_method = ''DELETE'', req_path = path self, req_data = None,
              req_query_params = None\<rparr> net of
           (Inl e, net') \<Rightarrow> (Inl e, self, net')
         | (Inr resp, net') \<Rightarrow>
             (if reload_data then reload api self None net' else (Inr (), self, net')))"

definition undelete ::
  "'w backend \<Rightarrow> folder \<Rightarrow> client option \<Rightarrow> bool \<Rightarrow> 'w net
     \<Rightarrow> (error + unit) \<times> folder \<times> 'w net" where
  "undelete api self client' reload_data net =
     (let c = require_client self client'
      in case api_request api c
             \<lparr>req_method = ''POST'', req_path = path self @ '':undelete'', req_data = None,
              req_query_params = None\<rparr> net of
           (Inl e, net') \<Rightarrow> (Inl e, self, net')
         | (Inr resp, net') \<Rightarrow>
             (if reload_data then reload api self None net' else (Inr (), self, net')))"

subsection \<open>Reading the outcome of a call\<close>

definition handle_of :: "'a \<times> folder \<times> 'w net \<Rightarrow> folder" where
  "handle_of r = fst (snd r)"



section \<open>Properties\<close>

subsection \<open>What each method does, given the answer of the connection\<close>

lemma exists_eq:
  assumes "api w (require_client self client')
             \<lparr>req_method = ''GET'', req_path = path self, req_data = None,
              req_query_params = None\<rparr> = (res, w')"
  shows "exists api self client' (w, calls) =
           ((case res of Inl e \<Rightarrow> if e = NotFound then Inr False else Inl e
             | Inr resp \<Rightarrow> Inr True),
            self,
            (w', calls @ [(require_client self client',
               \<lparr>req_method = ''GET'', req_path = path self, req_data = None,
                req_query_params = None\<rparr>)]))"
  using assms
  by (simp add: exists_def api_request_def Let_def split: sum.splits error.splits)

lemma create_eq:
  assumes "api w (require_client self client')
             \<lparr>req_method = ''POST'', req_path = ''/folders'',
              req_data = Some [(''name'', name self), (''displayName'', display_name self)],
              req_query_params = Some [(''parent'', parent self)]\<rparr> = (res, w')"
  shows "create api self client' (w, calls) =
           ((case res of Inl e \<Rightarrow> Inl e | Inr resp \<Rightarrow> Inr resp),
            (case res of Inl e \<Rightarrow> self | Inr resp \<Rightarrow> set_properties_from_api_repr self resp),
            (w', calls @ [(require_client self client',
               \<lparr>req_method = ''POST'', req_path = ''/folders'',
                req_data = Some [(''name'', name self), (''displayName'', display_name self)],
                req_query_params = Some [(''parent'', parent self)]\<rparr>)]))"
  using assms
  by (simp add: create_def api_request_def Let_def split: sum.splits)

lemma reload_eq:
  assumes "api w (require_client self client')
             \<lparr>req_method = ''GET'', req_path = path self, req_data = None,
              req_query_params = None\<rparr> = (res, w')"
  shows "reload api self client' (w, calls) =
           ((case res of Inl e \<Rightarrow> Inl e | Inr resp \<Rightarrow> Inr ()),
            (case res of Inl e \<Rightarrow> self | Inr resp \<Rightarrow> set_properties_from_api_repr self resp),
            (w', calls @ [(require_client self client',
               \<lparr>req_method = ''GET'', req_path = path self, req_data = None,
                req_query_params = None\<rparr>)]))"
  using assms
  by (simp add: reload_def api_request_def Let_def split: sum.splits)

lemma update_eq:
  assumes "api w (require_client self client')
             \<lparr>req_method = ''PUT'', req_path = path self,
              req_data = Some [(''display_name'', display_name self), (''parent'', parent self)],
              req_query_params = None\<rparr> = (res, w')"
  shows "update api self client' (w, calls) =
           ((case res of Inl e \<Rightarrow> Inl e | Inr resp \<Rightarrow> Inr ()),
            (case res of Inl e \<Rightarrow> self | Inr resp \<Rightarrow> set_properties_from_api_repr self resp),
            (w', calls @ [(require_client self client',
               \<lparr>req_method = ''PUT'', req_path = path self,
                req_data = Some [(''display_name'', display_name self), (''parent'', parent self)],
                req_query_params = None\<rparr>)]))"
  using assms
  by (simp add: update_def api_request_def Let_def split: sum.splits)

lemma delete_eq:
  assumes "api w (require_client self client')
             \<lparr>req_method = ''DELETE'', req_path = path self, req_data = None,
              req_query_params = None\<rparr> = (res, w')"
  shows "delete api self client' reload_data (w, calls) =
           (case res of
              Inl e \<Rightarrow> (Inl e, self, (w', calls @ [(require_client self client',
                 \<lparr>req_method = ''DELETE'', req_path = path self, req_data = None,
                  req_query_params = None\<rparr>)]))
            | Inr resp \<Rightarrow>
                if reload_data
                then reload api self None (w', calls @ [(require_client self client',
                 \<lparr>req_method = ''DELETE'', req_path = path self, req_data = None,
                  req_query_params = None\<rparr>)])
                else (Inr (), self, (w', calls @ [(require_client self client',
                 \<lparr>req_method = ''DELETE'', req_path = path self, req_data = None,
                  req_query_params = None\<rparr>)])))"
  using assms
  by (simp add: delete_def api_request_def Let_def split: sum.splits)

lemma undelete_eq:
  assumes "api w (require_client self client')
             \<lparr>req_method = ''POST'', req_path = path self @ '':undelete'', req_data = None,
              req_query_params = None\<rparr> = (res, w')"
  shows "undelete api self client' reload_data (w, calls) =
           (case res of
              Inl e \<Rightarrow> (Inl e, self, (w', calls @ [(require_client self client',
                 \<lparr>req_method = ''POST'', req_path = path self @ '':undelete'', req_data = None,
                  req_query_params = None\<rparr>)]))
            | Inr resp \<Rightarrow>
                if reload_data
                then reload api self None (w', calls @ [(require_client self client',
                 \<lparr>req_method = ''POST'', req_path = path self @ '':undelete'', req_data = None,
                  req_query_params = None\<rparr>)])
                else (Inr (), self, (w', calls @ [(require_client self client',
                 \<lparr>req_method = ''POST'', req_path = path self @ '':undelete'', req_data = None,
                  req_query_params = None\<rparr>)])))"
  using assms
  by (simp add: undelete_def api_request_def Let_def split: sum.splits)


lemma reload_raises_handle:
  "fst (reload api self client' net) = Inl e \<Longrightarrow> handle_of (reload api self client' net) = self"
  by (auto simp: reload_def api_request_def Let_def handle_of_def split: prod.splits sum.splits)



lemma update_raises_handle:
  "fst (update api self client' net) = Inl e \<Longrightarrow> handle_of (update api self client' net) = self"
  by (auto simp: update_def api_request_def Let_def handle_of_def split: prod.splits sum.splits)

lemma undelete_raises_handle:
  "fst (undelete api self client' reload_data net) = Inl e \<Longrightarrow>
   handle_of (undelete api self client' reload_data net) = self"
  using reload_raises_handle [of api self None _ e]
  by (auto simp: undelete_def api_request_def Let_def handle_of_def
      split: prod.splits sum.splits if_splits)

lemma contains_keys: "contains d key \<longleftrightarrow> key \<in> fst ` set d"
  by (simp add: contains_def map_of_eq_None_iff)

lemma from_api_repr_eq:
  "from_api_repr resource c =
     (if contains resource ''name''
      then Inr (set_properties_from_api_repr (Folder c (dict_get resource ''name'') None None)
                  resource)
      else Inl (KeyError ''name''))"
  by (simp add: from_api_repr_def dict_item_def contains_def dict_get_def split: option.splits)

lemma set_properties_new:
  "set_properties_from_api_repr (Folder c n None None) resource =
     \<lparr>folder_client = c, name = dict_get resource ''name'', display_name = None,
      status = dict_get resource ''lifecycleState'', parent = dict_get resource ''parent''\<rparr>"
  by (simp add: set_properties_from_api_repr_def Let_def Folder_def contains_def dict_get_def)

lemma set_properties_record:
  "set_properties_from_api_repr self resp =
     \<lparr>folder_client = folder_client self, name = dict_get resp ''name'',
      display_name = display_name self,
      status = (if contains resp ''lifecycleState'' then dict_get resp ''lifecycleState''
                else status self),
      parent = (if contains resp ''parent'' then dict_get resp ''parent'' else parent self)\<rparr>"
  by (cases self) (simp add: set_properties_from_api_repr_def Let_def)

subsection \<open>The merge routine\<close>

text \<open>
  C1, as the code has it: \<^verbatim>\<open>set_properties_from_api_repr\<close> copies \<^verbatim>\<open>parent\<close> and
  \<^verbatim>\<open>lifecycleState\<close> (to \<open>status\<close>) only when the key is in the response and leaves the
  local value alone otherwise, but assigns \<^verbatim>\<open>resource.get("name")\<close> to the id in
  every case, so the id becomes \<^verbatim>\<open>None\<close> when the key \<^verbatim>\<open>name\<close> is absent. The
  display name and the bound client are never touched. Merging the response
  \<^verbatim>\<open>{"name": v}\<close> changes the id only.
\<close>

theorem set_properties_merge:
  "name (set_properties_from_api_repr self resource) = dict_get resource ''name'' \<and>
   parent (set_properties_from_api_repr self resource) =
     (if contains resource ''parent'' then dict_get resource ''parent'' else parent self) \<and>
   status (set_properties_from_api_repr self resource) =
     (if contains resource ''lifecycleState'' then dict_get resource ''lifecycleState''
      else status self) \<and>
   display_name (set_properties_from_api_repr self resource) = display_name self \<and>
   folder_client (set_properties_from_api_repr self resource) = folder_client self \<and>
   set_properties_from_api_repr self [(''name'', v)] = self\<lparr>name := v\<rparr>"
  by (simp add: set_properties_from_api_repr_def Let_def contains_def dict_get_def)

text \<open>
  The partial response \<^verbatim>\<open>{"name": "folders/1"}\<close> merged into a handle with a parent
  and a lifecycle state.
\<close>

theorem set_properties_merge_witness:
  "set_properties_from_api_repr
     \<lparr>folder_client = 0, name = None, display_name = Some ''docs'',
      status = Some ''ACTIVE'', parent = Some ''organizations/7''\<rparr>
     [(''name'', Some ''folders/1'')] =
   \<lparr>folder_client = 0, name = Some ''folders/1'', display_name = Some ''docs'',
    status = Some ''ACTIVE'', parent = Some ''organizations/7''\<rparr>"
  using set_properties_merge
    [of "\<lparr>folder_client = 0, name = None, display_name = Some ''docs'',
          status = Some ''ACTIVE'', parent = Some ''organizations/7''\<rparr>"
        "[]" "Some ''folders/1''"]
  by simp

text \<open>
  The claim as stated fails for the id: the response \<^verbatim>\<open>{"lifecycleState": "ACTIVE"}\<close> has no
  key \<^verbatim>\<open>name\<close>, and merging it into a handle whose id is \<^verbatim>\<open>"folders/1"\<close> leaves the
  id \<^verbatim>\<open>None\<close>.
\<close>

theorem set_properties_absent_name_counterexample:
  "\<not> contains [(''lifecycleState'', Some ''ACTIVE'')] ''name'' \<and>
   name (Folder 0 (Some ''folders/1'') None None) = Some ''folders/1'' \<and>
   name (set_properties_from_api_repr (Folder 0 (Some ''folders/1'') None None)
           [(''lifecycleState'', Some ''ACTIVE'')]) = None"
  by (simp add: set_properties_from_api_repr_def Let_def contains_def dict_get_def Folder_def)

subsection \<open>Reloading\<close>

text \<open>
  C2 at a concrete handle: the display name was edited locally and the server answers the
  GET with the full representation, \<^verbatim>\<open>displayName\<close> included. \<^verbatim>\<open>reload\<close> makes the GET
  on the handle's path and takes the parent and the lifecycle state from the response, but
  the local display name survives: the merge routine never reads \<^verbatim>\<open>displayName\<close>.
\<close>

theorem reload_keeps_display_name:
  "reload scripted
     \<lparr>folder_client = 0, name = Some ''folders/1'', display_name = Some ''local edit'',
      status = None, parent = None\<rparr> None
     ([Inr [(''name'', Some ''folders/1''), (''displayName'', Some ''server name''),
            (''parent'', Some ''organizations/7''), (''lifecycleState'', Some ''ACTIVE'')]], []) =
   (Inr (),
    \<lparr>folder_client = 0, name = Some ''folders/1'', display_name = Some ''local edit'',
      status = Some ''ACTIVE'', parent = Some ''organizations/7''\<rparr>,
    ([], [(0, \<lparr>req_method = ''GET'', req_path = ''/folders/1'', req_data = None,
               req_query_params = None\<rparr>)]))"
  by (simp add: reload_def api_request_def scripted_def require_client_def path_def str_def
      set_properties_from_api_repr_def Let_def contains_def dict_get_def)

subsection \<open>Updating\<close>

text \<open>
  C3 at a concrete handle: \<^verbatim>\<open>update\<close> makes one PUT on the handle's path and merges the
  response, but the body it sends has the keys \<^verbatim>\<open>display_name\<close> and \<^verbatim>\<open>parent\<close>: there
  is no key \<^verbatim>\<open>displayName\<close> in it.
\<close>

theorem update_sends_display_name_key:
  "update scripted
     \<lparr>folder_client = 0, name = Some ''folders/1'', display_name = Some ''docs'',
      status = Some ''ACTIVE'', parent = Some ''organizations/7''\<rparr> None
     ([Inr [(''name'', Some ''folders/1'')]], []) =
   (Inr (),
    \<lparr>folder_client = 0, name = Some ''folders/1'', display_name = Some ''docs'',
      status = Some ''ACTIVE'', parent = Some ''organizations/7''\<rparr>,
    ([], [(0, \<lparr>req_method = ''PUT'', req_path = ''/folders/1'',
               req_data = Some [(''display_name'', Some ''docs''),
                                (''parent'', Some ''organizations/7'')],
               req_query_params = None\<rparr>)])) \<and>
   \<not> contains [(''display_name'', Some ''docs''), (''parent'', Some ''organizations/7'')]
         ''displayName''"
  by (simp add: update_def api_request_def scripted_def require_client_def path_def str_def
      set_properties_from_api_repr_def Let_def contains_def dict_get_def)

subsection \<open>Existence\<close>

text \<open>
  C4: let the connection answer the GET of the handle's path with \<open>res\<close>. Then
  \<^verbatim>\<open>exists\<close> returns \<^verbatim>\<open>False\<close> exactly when \<open>res\<close> is the \<open>NotFound\<close> exception,
  returns \<^verbatim>\<open>True\<close> exactly when \<open>res\<close> is a response, and raises any other exception
  exactly when \<open>res\<close> is that exception; it never raises \<open>NotFound\<close> and never changes
  the handle.
\<close>

theorem exists_result:
  assumes "api w (require_client self client')
             \<lparr>req_method = ''GET'', req_path = path self, req_data = None,
              req_query_params = None\<rparr> = (res, w')"
  shows "(fst (exists api self client' (w, calls)) = Inr False \<longleftrightarrow> res = Inl NotFound) \<and>
         (fst (exists api self client' (w, calls)) = Inr True \<longleftrightarrow> (\<exists>resp. res = Inr resp)) \<and>
         (\<forall>e. e \<noteq> NotFound \<longrightarrow>
            (fst (exists api self client' (w, calls)) = Inl e \<longleftrightarrow> res = Inl e)) \<and>
         fst (exists api self client' (w, calls)) \<noteq> Inl NotFound \<and>
         handle_of (exists api self client' (w, calls)) = self"
proof -
  note eq = exists_eq [of api w self client' res w' calls, OF assms]
  show ?thesis
    unfolding eq handle_of_def by (cases res) auto
qed

text \<open>
  The three answers of the connection to the GET of \<^verbatim>\<open>/folders/42\<close>: \<open>NotFound\<close>, a
  response, and another failure.
\<close>

theorem exists_result_witness:
  "fst (exists scripted (Folder 0 (Some ''folders/42'') None None) None
          ([Inl NotFound], [])) = Inr False \<and>
   fst (exists scripted (Folder 0 (Some ''folders/42'') None None) None
          ([Inr [(''name'', Some ''folders/42'')]], [])) = Inr True \<and>
   fst (exists scripted (Folder 0 (Some ''folders/42'') None None) None
          ([Inl (RequestFailure ''500'')], [])) = Inl (RequestFailure ''500'')"
  using
    exists_result [of scripted "[Inl NotFound]" "Folder 0 (Some ''folders/42'') None None"
      None "Inl NotFound" "[]" "[]"]
    exists_result [of scripted "[Inr [(''name'', Some ''folders/42'')]]"
      "Folder 0 (Some ''folders/42'') None None" None "Inr [(''name'', Some ''folders/42'')]"
      "[]" "[]"]
    exists_result [of scripted "[Inl (RequestFailure ''500'')]"
      "Folder 0 (Some ''folders/42'') None None" None "Inl (RequestFailure ''500'')" "[]" "[]"]
  by (simp add: scripted_def)

subsection \<open>Request paths\<close>



subsection \<open>Deleting\<close>

text \<open>
  C6: let the connection answer the DELETE of the handle's path with \<open>res\<close>, and then the
  GET of that path on the handle's client with \<open>res2\<close>. Without \<^verbatim>\<open>reload_data\<close>,
  \<^verbatim>\<open>delete\<close> makes the DELETE and no other request, returns when the DELETE returns and
  raises what it raises, and leaves the handle alone. With \<^verbatim>\<open>reload_data\<close>, once the
  DELETE has returned, \<^verbatim>\<open>delete\<close> makes exactly one more request, the GET of
  \<^verbatim>\<open>reload\<close>, after the DELETE, and ends as that reload ends: the response merged into
  the handle, or the exception of the GET raised and the handle as before. A DELETE that
  raises \<open>e\<close> makes \<^verbatim>\<open>delete\<close> raise \<open>e\<close> with no further request.
\<close>

theorem delete_requests:
  assumes "api w (require_client self client')
             \<lparr>req_method = ''DELETE'', req_path = path self, req_data = None,
              req_query_params = None\<rparr> = (res, w')"
    and "api w' (folder_client self)
             \<lparr>req_method = ''GET'', req_path = path self, req_data = None,
              req_query_params = None\<rparr> = (res2, w'')"
  shows "delete api self client' False (w, calls) =
           ((case res of Inl e \<Rightarrow> Inl e | Inr resp \<Rightarrow> Inr ()),
            self,
            (w', calls @ [(require_client self client',
               \<lparr>req_method = ''DELETE'', req_path = path self, req_data = None,
                req_query_params = None\<rparr>)])) \<and>
         delete api self client' True (w, calls) =
           (case res of
              Inl e \<Rightarrow>
                (Inl e, self,
                 (w', calls @ [(require_client self client',
                    \<lparr>req_method = ''DELETE'', req_path = path self, req_data = None,
                     req_query_params = None\<rparr>)]))
            | Inr resp \<Rightarrow>
                ((case res2 of Inl e \<Rightarrow> Inl e | Inr resp2 \<Rightarrow> Inr ()),
                 (case res2 of Inl e \<Rightarrow> self
                  | Inr resp2 \<Rightarrow> set_properties_from_api_repr self resp2),
                 (w'', calls @
                    [(require_client self client',
                      \<lparr>req_method = ''DELETE'', req_path = path self, req_data = None,
                       req_query_params = None\<rparr>),
                     (folder_client self,
                      \<lparr>req_method = ''GET'', req_path = path self, req_data = None,
                       req_query_params = None\<rparr>)])))"
proof -
  have rc: "require_client self None = folder_client self"
    by (simp add: require_client_def)
  note d = delete_eq [of api w self client' res w' _ calls, OF assms(1)]
  note r = reload_eq [of api w' self None res2 w'', unfolded rc, OF assms(2)]
  show ?thesis
    unfolding d by (cases res) (simp_all add: r)
qed

text \<open>
  A connection that answers the DELETE of \<^verbatim>\<open>/folders/42\<close> and then the GET, with the
  folder in the state \<^verbatim>\<open>DELETE_REQUESTED\<close>.
\<close>

theorem delete_requests_witness:
  "delete scripted (Folder 0 (Some ''folders/42'') None None) None False
     ([Inr [], Inr [(''name'', Some ''folders/42''), (''lifecycleState'', Some ''DELETE_REQUESTED'')]], []) =
   (Inr (), Folder 0 (Some ''folders/42'') None None,
    ([Inr [(''name'', Some ''folders/42''), (''lifecycleState'', Some ''DELETE_REQUESTED'')]],
     [(0, \<lparr>req_method = ''DELETE'', req_path = ''/folders/42'', req_data = None,
           req_query_params = None\<rparr>)])) \<and>
   delete scripted (Folder 0 (Some ''folders/42'') None None) None True
     ([Inr [], Inr [(''name'', Some ''folders/42''), (''lifecycleState'', Some ''DELETE_REQUESTED'')]], []) =
   (Inr (),
    \<lparr>folder_client = 0, name = Some ''folders/42'', display_name = None,
     status = Some ''DELETE_REQUESTED'', parent = None\<rparr>,
    ([],
     [(0, \<lparr>req_method = ''DELETE'', req_path = ''/folders/42'', req_data = None,
           req_query_params = None\<rparr>),
      (0, \<lparr>req_method = ''GET'', req_path = ''/folders/42'', req_data = None,
           req_query_params = None\<rparr>)]))"
  using
    delete_requests [of scripted
      "[Inr [], Inr [(''name'', Some ''folders/42''), (''lifecycleState'', Some ''DELETE_REQUESTED'')]]"
      "Folder 0 (Some ''folders/42'') None None" None "Inr []"
      "[Inr [(''name'', Some ''folders/42''), (''lifecycleState'', Some ''DELETE_REQUESTED'')]]"
      "Inr [(''name'', Some ''folders/42''), (''lifecycleState'', Some ''DELETE_REQUESTED'')]"
      "[]" "[]"]
  by (simp add: scripted_def Folder_def path_def str_def require_client_def
      set_properties_record contains_def dict_get_def)

subsection \<open>Creating\<close>

text \<open>
  C7: \<^verbatim>\<open>create\<close> makes exactly one request, a POST on \<^verbatim>\<open>/folders\<close> whose body has the
  keys \<^verbatim>\<open>name\<close> and \<^verbatim>\<open>displayName\<close> with the handle's id and display name, and whose
  query parameters have the key \<^verbatim>\<open>parent\<close> with the handle's parent. When the
  connection returns a response, \<^verbatim>\<open>create\<close> returns it, having merged it into the
  handle with \<^verbatim>\<open>set_properties_from_api_repr\<close>: the id is the response's \<^verbatim>\<open>name\<close>
  (\<^verbatim>\<open>None\<close> when the response has none), the parent and the lifecycle state are the
  response's \<^verbatim>\<open>parent\<close> and \<^verbatim>\<open>lifecycleState\<close> where it has these keys and the local
  values otherwise, and the display name and the bound client are the local ones. When
  the connection raises, so does \<^verbatim>\<open>create\<close>, and the handle is as before.
\<close>

theorem create_request_and_merge:
  assumes "api w (require_client self client')
             \<lparr>req_method = ''POST'', req_path = ''/folders'',
              req_data = Some [(''name'', name self), (''displayName'', display_name self)],
              req_query_params = Some [(''parent'', parent self)]\<rparr> = (res, w')"
  shows "create api self client' (w, calls) =
           (case res of
              Inl e \<Rightarrow>
                (Inl e, self,
                 (w', calls @ [(require_client self client',
                    \<lparr>req_method = ''POST'', req_path = ''/folders'',
                     req_data = Some [(''name'', name self),
                                      (''displayName'', display_name self)],
                     req_query_params = Some [(''parent'', parent self)]\<rparr>)]))
            | Inr resp \<Rightarrow>
                (Inr resp,
                 \<lparr>folder_client = folder_client self, name = dict_get resp ''name'',
                  display_name = display_name self,
                  status = (if contains resp ''lifecycleState''
                            then dict_get resp ''lifecycleState'' else status self),
                  parent = (if contains resp ''parent'' then dict_get resp ''parent''
                            else parent self)\<rparr>,
                 (w', calls @ [(require_client self client',
                    \<lparr>req_method = ''POST'', req_path = ''/folders'',
                     req_data = Some [(''name'', name self),
                                      (''displayName'', display_name self)],
                     req_query_params = Some [(''parent'', parent self)]\<rparr>)]))) \<and>
         (case res of
            Inl e \<Rightarrow> handle_of (create api self client' (w, calls)) = self
          | Inr resp \<Rightarrow> handle_of (create api self client' (w, calls)) =
              set_properties_from_api_repr self resp)"
proof -
  note eq = create_eq [of api w self client' res w' calls, OF assms]
  show ?thesis
    unfolding eq by (cases res) (simp_all add: handle_of_def set_properties_record)
qed

text \<open>
  A new handle created under \<^verbatim>\<open>organizations/7\<close>, which the server files under
  \<^verbatim>\<open>folders/9\<close>; and a response that has no \<^verbatim>\<open>name\<close> and a null parent, to a
  request made on an override client.
\<close>

theorem create_request_and_merge_witness:
  "create scripted (Folder 0 None (Some ''docs'') (Some ''organizations/7'')) None
     ([Inr [(''name'', Some ''folders/1''), (''parent'', Some ''folders/9''),
            (''lifecycleState'', Some ''ACTIVE'')]], []) =
   (Inr [(''name'', Some ''folders/1''), (''parent'', Some ''folders/9''),
         (''lifecycleState'', Some ''ACTIVE'')],
    \<lparr>folder_client = 0, name = Some ''folders/1'', display_name = Some ''docs'',
     status = Some ''ACTIVE'', parent = Some ''folders/9''\<rparr>,
    ([], [(0, \<lparr>req_method = ''POST'', req_path = ''/folders'',
               req_data = Some [(''name'', None), (''displayName'', Some ''docs'')],
               req_query_params = Some [(''parent'', Some ''organizations/7'')]\<rparr>)])) \<and>
   create scripted
     \<lparr>folder_client = 0, name = Some ''folders/tmp'', display_name = Some ''docs'',
      status = Some ''ACTIVE'', parent = Some ''organizations/7''\<rparr> (Some 1)
     ([Inr [(''parent'', None)]], []) =
   (Inr [(''parent'', None)],
    \<lparr>folder_client = 0, name = None, display_name = Some ''docs'',
     status = Some ''ACTIVE'', parent = None\<rparr>,
    ([], [(1, \<lparr>req_method = ''POST'', req_path = ''/folders'',
               req_data = Some [(''name'', Some ''folders/tmp''),
                                (''displayName'', Some ''docs'')],
               req_query_params = Some [(''parent'', Some ''organizations/7'')]\<rparr>)]))"
  using
    create_request_and_merge
      [of scripted "[Inr [(''name'', Some ''folders/1''), (''parent'', Some ''folders/9''),
            (''lifecycleState'', Some ''ACTIVE'')]]"
        "Folder 0 None (Some ''docs'') (Some ''organizations/7'')" None
        "Inr [(''name'', Some ''folders/1''), (''parent'', Some ''folders/9''),
            (''lifecycleState'', Some ''ACTIVE'')]" "[]" "[]"]
    create_request_and_merge
      [of scripted "[Inr [(''parent'', None)]]"
        "\<lparr>folder_client = 0, name = Some ''folders/tmp'', display_name = Some ''docs'',
          status = Some ''ACTIVE'', parent = Some ''organizations/7''\<rparr>" "Some 1"
        "Inr [(''parent'', None)]" "[]" "[]"]
  by (simp add: scripted_def Folder_def require_client_def contains_def dict_get_def)

subsection \<open>Failed requests\<close>

text \<open>
  C8: when the PUT of \<^verbatim>\<open>update\<close> raises \<open>e\<close>, \<^verbatim>\<open>update\<close> raises \<open>e\<close> and the handle is
  as it was before the call; when the POST of \<^verbatim>\<open>undelete\<close> raises \<open>e\<close>, \<^verbatim>\<open>undelete\<close>
  raises \<open>e\<close> and the handle is as it was before the call. More generally, whenever
  \<^verbatim>\<open>update\<close> or \<^verbatim>\<open>undelete\<close> raises, also from the GET of the reload, the handle is
  unchanged.
\<close>

theorem failed_request_keeps_fields:
  "(\<forall>e w'. api w (require_client self client')
             \<lparr>req_method = ''PUT'', req_path = path self,
              req_data = Some [(''display_name'', display_name self), (''parent'', parent self)],
              req_query_params = None\<rparr> = (Inl e, w') \<longrightarrow>
      fst (update api self client' (w, calls)) = Inl e \<and>
      handle_of (update api self client' (w, calls)) = self) \<and>
   (\<forall>e w'. api w (require_client self client')
             \<lparr>req_method = ''POST'', req_path = path self @ '':undelete'', req_data = None,
              req_query_params = None\<rparr> = (Inl e, w') \<longrightarrow>
      fst (undelete api self client' reload_data (w, calls)) = Inl e \<and>
      handle_of (undelete api self client' reload_data (w, calls)) = self) \<and>
   (\<forall>e. fst (update api self client' (w, calls)) = Inl e \<longrightarrow>
      handle_of (update api self client' (w, calls)) = self) \<and>
   (\<forall>e. fst (undelete api self client' reload_data (w, calls)) = Inl e \<longrightarrow>
      handle_of (undelete api self client' reload_data (w, calls)) = self)"
proof -
  have a: "fst (update api self client' (w, calls)) = Inl e \<and>
      handle_of (update api self client' (w, calls)) = self"
    if "api w (require_client self client')
             \<lparr>req_method = ''PUT'', req_path = path self,
              req_data = Some [(''display_name'', display_name self), (''parent'', parent self)],
              req_query_params = None\<rparr> = (Inl e, w')" for e w'
    using update_eq [of api w self client' "Inl e" w' calls, OF that]
    by (simp add: handle_of_def)
  have b: "fst (undelete api self client' reload_data (w, calls)) = Inl e \<and>
      handle_of (undelete api self client' reload_data (w, calls)) = self"
    if "api w (require_client self client')
             \<lparr>req_method = ''POST'', req_path = path self @ '':undelete'', req_data = None,
              req_query_params = None\<rparr> = (Inl e, w')" for e w'
    using undelete_eq [of api w self client' "Inl e" w' reload_data calls, OF that]
    by (simp add: handle_of_def)
  from a b show ?thesis
    using update_raises_handle [of api self client' "(w, calls)"]
      undelete_raises_handle [of api self client' reload_data "(w, calls)"]
    by blast
qed

text \<open>
  A connection that refuses the first request, and one that answers the POST of
  \<^verbatim>\<open>undelete\<close> and then refuses the GET of the reload.
\<close>

theorem failed_request_keeps_fields_witness:
  "update scripted
     \<lparr>folder_client = 0, name = Some ''folders/1'', display_name = Some ''renamed'',
      status = Some ''ACTIVE'', parent = Some ''organizations/7''\<rparr> None
     ([Inl (RequestFailure ''400'')], []) =
   (Inl (RequestFailure ''400''),
    \<lparr>folder_client = 0, name = Some ''folders/1'', display_name = Some ''renamed'',
      status = Some ''ACTIVE'', parent = Some ''organizations/7''\<rparr>,
    ([], [(0, \<lparr>req_method = ''PUT'', req_path = ''/folders/1'',
               req_data = Some [(''display_name'', Some ''renamed''),
                                (''parent'', Some ''organizations/7'')],
               req_query_params = None\<rparr>)])) \<and>
   undelete scripted
     \<lparr>folder_client = 0, name = Some ''folders/1'', display_name = Some ''renamed'',
      status = Some ''DELETE_REQUESTED'', parent = Some ''organizations/7''\<rparr> None True
     ([Inl (RequestFailure ''400'')], []) =
   (Inl (RequestFailure ''400''),
    \<lparr>folder_client = 0, name = Some ''folders/1'', display_name = Some ''renamed'',
      status = Some ''DELETE_REQUESTED'', parent = Some ''organizations/7''\<rparr>,
    ([], [(0, \<lparr>req_method = ''POST'', req_path = ''/folders/1:undelete'', req_data = None,
               req_query_params = None\<rparr>)])) \<and>
   handle_of (undelete scripted
     \<lparr>folder_client = 0, name = Some ''folders/1'', display_name = Some ''renamed'',
      status = Some ''DELETE_REQUESTED'', parent = Some ''organizations/7''\<rparr> None True
     ([Inr [], Inl NotFound], [])) =
    \<lparr>folder_client = 0, name = Some ''folders/1'', display_name = Some ''renamed'',
      status = Some ''DELETE_REQUESTED'', parent = Some ''organizations/7''\<rparr>"
  using
    failed_request_keeps_fields [of scripted "[Inr [], Inl NotFound]"
      "\<lparr>folder_client = 0, name = Some ''folders/1'', display_name = Some ''renamed'',
        status = Some ''DELETE_REQUESTED'', parent = Some ''organizations/7''\<rparr>" None "[]" True]
    failed_request_keeps_fields [of scripted "[Inl (RequestFailure ''400'')]"
      "\<lparr>folder_client = 0, name = Some ''folders/1'', display_name = Some ''renamed'',
        status = Some ''ACTIVE'', parent = Some ''organizations/7''\<rparr>" None "[]" True]
    failed_request_keeps_fields [of scripted "[Inl (RequestFailure ''400'')]"
      "\<lparr>folder_client = 0, name = Some ''folders/1'', display_name = Some ''renamed'',
        status = Some ''DELETE_REQUESTED'', parent = Some ''organizations/7''\<rparr>" None "[]" True]
  by (simp add: scripted_def update_def undelete_def reload_def api_request_def
      require_client_def path_def str_def handle_of_def)

subsection \<open>The client of the reload\<close>



subsection \<open>Construction from a resource\<close>

text \<open>
  C10: \<^verbatim>\<open>from_api_repr\<close> returns a handle exactly when the resource has the key
  \<^verbatim>\<open>name\<close>, and raises \<^verbatim>\<open>KeyError\<close> for that key otherwise. The handle it returns is
  bound to the given client, has no display name, and has the id, the parent and the
  lifecycle state the merge routine reads from the resource.
\<close>

theorem from_api_repr_needs_name:
  "from_api_repr resource c =
     (if contains resource ''name''
      then Inr \<lparr>folder_client = c, name = dict_get resource ''name'', display_name = None,
                status = dict_get resource ''lifecycleState'',
                parent = dict_get resource ''parent''\<rparr>
      else Inl (KeyError ''name'')) \<and>
   ((\<exists>f. from_api_repr resource c = Inr f) \<longleftrightarrow> contains resource ''name'') \<and>
   (contains resource ''name'' \<longleftrightarrow> ''name'' \<in> fst ` set resource) \<and>
   (case from_api_repr resource c of
      Inl e \<Rightarrow> e = KeyError ''name''
    | Inr f \<Rightarrow> f = set_properties_from_api_repr (Folder c (dict_get resource ''name'') None None)
                     resource)"
  unfolding from_api_repr_eq
  by (simp add: set_properties_new contains_keys)

text \<open>A resource with the key \<^verbatim>\<open>name\<close> and one without.\<close>

theorem from_api_repr_needs_name_witness:
  "from_api_repr [(''name'', Some ''folders/1''), (''lifecycleState'', Some ''ACTIVE'')] 0 =
     Inr \<lparr>folder_client = 0, name = Some ''folders/1'', display_name = None,
          status = Some ''ACTIVE'', parent = None\<rparr> \<and>
   from_api_repr [(''lifecycleState'', Some ''ACTIVE'')] 0 = Inl (KeyError ''name'')"
  using
    from_api_repr_needs_name
      [of "[(''name'', Some ''folders/1''), (''lifecycleState'', Some ''ACTIVE'')]" 0]
    from_api_repr_needs_name [of "[(''lifecycleState'', Some ''ACTIVE'')]" 0]
  by (simp add: contains_def dict_get_def)

end
